theory Spec2Isabelle
  imports Main "HOL-Library.Sublist"
begin

section \<open>Catalog pagination (the Pagination component)\<close>

text \<open>
  The pagination envelope of the catalog. The source's \<open>number\<close> fields hold page and
  item counts; they are modelled as unbounded integers. The field \<open>total\<close> of the source
  is called \<open>total_items\<close> here, since \<open>total\<close> is a constant of HOL.
\<close>

record PaginationInfo =
  page :: int
  per_page :: int
  total_items :: int
  pages :: int
  has_next :: bool
  has_prev :: bool

text \<open>An entry of the page strip: \<open>number | 'ellipsis'\<close> in the source.\<close>

datatype page_item = PageNum int | Ellipsis

definition startItem :: "PaginationInfo \<Rightarrow> int" where
  "startItem p = (page p - 1) * per_page p + 1"

definition endItem :: "PaginationInfo \<Rightarrow> int" where
  "endItem p = min (page p * per_page p) (total_items p)"

text \<open>
  The loop \<open>for (let i = lo; i <= hi; i++) visiblePages.push(i)\<close>, with the list built so
  far as accumulator.
\<close>

function push_range :: "int \<Rightarrow> int \<Rightarrow> page_item list \<Rightarrow> page_item list" where
  "push_range i hi visiblePages =
     (if i \<le> hi then push_range (i + 1) hi (visiblePages @ [PageNum i]) else visiblePages)"
  by pat_completeness auto
termination
  by (relation "measure (\<lambda>(i, hi, visiblePages). nat (hi + 1 - i))") auto

declare push_range.simps [simp del]

definition getVisiblePages :: "PaginationInfo \<Rightarrow> page_item list" where
  "getVisiblePages p =
     (let maxVisiblePages = 7 in
      if pages p \<le> maxVisiblePages then push_range 1 (pages p) []
      else
        (let visiblePages = [PageNum 1] in
         if page p \<le> 4 then
           push_range 2 5 visiblePages @ [Ellipsis] @ [PageNum (pages p)]
         else if page p \<ge> pages p - 3 then
           push_range (pages p - 4) (pages p) (visiblePages @ [Ellipsis])
         else
           push_range (page p - 1) (page p + 1) (visiblePages @ [Ellipsis])
             @ [Ellipsis] @ [PageNum (pages p)]))"

text \<open>
  What the component renders: nothing (\<open>return null\<close>) when there is at most one page,
  otherwise the results summary, the Previous and Next buttons with their \<open>disabled\<close>
  attribute and the page they request on click, and the page strip.
\<close>

record pagination_view =
  shown_from :: int
  shown_to :: int
  prev_disabled :: bool
  prev_requests :: int
  page_strip :: "page_item list"
  next_disabled :: bool
  next_requests :: int

definition Pagination :: "PaginationInfo \<Rightarrow> pagination_view option" where
  "Pagination p =
     (if pages p \<le> 1 then None
      else Some \<lparr> shown_from = startItem p,
                  shown_to = endItem p,
                  prev_disabled = (\<not> has_prev p),
                  prev_requests = page p - 1,
                  page_strip = getVisiblePages p,
                  next_disabled = (\<not> has_next p),
                  next_requests = page p + 1 \<rparr>)"

section \<open>Facet filters (the FiltersSidebar component)\<close>

record FiltersState =
  categories :: "string list"
  formats :: "string list"
  languages :: "string list"
  licenses :: "string list"

text \<open>\<open>keyof FiltersState\<close>, with the indexed read and the spread-and-override update.\<close>

datatype filter_key = Categories | Formats | Languages | Licenses

fun get_filter :: "FiltersState \<Rightarrow> filter_key \<Rightarrow> string list" where
  "get_filter filters Categories = categories filters"
| "get_filter filters Formats = formats filters"
| "get_filter filters Languages = languages filters"
| "get_filter filters Licenses = licenses filters"

fun set_filter :: "FiltersState \<Rightarrow> filter_key \<Rightarrow> string list \<Rightarrow> FiltersState" where
  "set_filter filters Categories newValues = filters\<lparr>categories := newValues\<rparr>"
| "set_filter filters Formats newValues = filters\<lparr>formats := newValues\<rparr>"
| "set_filter filters Languages newValues = filters\<lparr>languages := newValues\<rparr>"
| "set_filter filters Licenses newValues = filters\<lparr>licenses := newValues\<rparr>"

text \<open>
  Both handlers pass a new filters state to the \<open>onFiltersChange\<close> callback; the models
  return that state.
\<close>

definition handleFilterChange ::
    "FiltersState \<Rightarrow> filter_key \<Rightarrow> string \<Rightarrow> bool \<Rightarrow> FiltersState" where
  "handleFilterChange filters filterType val checked =
     (let currentValues = get_filter filters filterType;
          newValues = (if checked then currentValues @ [val]
                       else filter (\<lambda>v. v \<noteq> val) currentValues)
      in set_filter filters filterType newValues)"

definition clearAllFilters :: "FiltersState" where
  "clearAllFilters = \<lparr> categories = [], formats = [], languages = [], licenses = [] \<rparr>"

section \<open>Dashboard state (the DashboardContent and SearchBar components)\<close>

text \<open>
  The part of the dashboard's state that its handlers write (the search text, the facet
  selections and the pagination envelope), with the text the search bar holds in its
  input (\<open>localValue\<close>, the search bar's own state).
\<close>

record dashboard_state =
  searchQuery :: string
  filters :: FiltersState
  pagination :: PaginationInfo
  localValue :: string

definition setSearchQuery :: "string \<Rightarrow> dashboard_state \<Rightarrow> dashboard_state" where
  "setSearchQuery query st = st\<lparr>searchQuery := query\<rparr>"

definition handleSearch :: "string \<Rightarrow> dashboard_state \<Rightarrow> dashboard_state" where
  "handleSearch query st =
     (let st1 = setSearchQuery query st
      in st1\<lparr>pagination := (pagination st1)\<lparr>page := 1\<rparr>\<rparr>)"

definition handleFiltersChange :: "FiltersState \<Rightarrow> dashboard_state \<Rightarrow> dashboard_state" where
  "handleFiltersChange newFilters st =
     (let st1 = st\<lparr>filters := newFilters\<rparr>
      in st1\<lparr>pagination := (pagination st1)\<lparr>page := 1\<rparr>\<rparr>)"

definition handlePageChange :: "int \<Rightarrow> dashboard_state \<Rightarrow> dashboard_state" where
  "handlePageChange pg st = st\<lparr>pagination := (pagination st)\<lparr>page := pg\<rparr>\<rparr>"

text \<open>
  The search bar's handlers, with its two callbacks as the dashboard passes them:
  \<open>onChange\<close> is the bare state setter \<open>setSearchQuery\<close> and \<open>onSearch\<close> is
  \<open>handleSearch\<close>. The names carry the component's name, since the forms have handlers
  of the same names.
\<close>

definition searchBar_handleInputChange :: "string \<Rightarrow> dashboard_state \<Rightarrow> dashboard_state" where
  "searchBar_handleInputChange newValue st =
     (let st1 = st\<lparr>localValue := newValue\<rparr>
      in setSearchQuery newValue st1)"

definition searchBar_handleSubmit :: "dashboard_state \<Rightarrow> dashboard_state" where
  "searchBar_handleSubmit st = handleSearch (localValue st) st"

definition searchBar_handleClear :: "dashboard_state \<Rightarrow> dashboard_state" where
  "searchBar_handleClear st =
     (let st1 = st\<lparr>localValue := []\<rparr>;
          st2 = setSearchQuery [] st1
      in handleSearch [] st2)"

definition searchBar_handleKeyDown :: "string \<Rightarrow> dashboard_state \<Rightarrow> dashboard_state" where
  "searchBar_handleKeyDown key st =
     (if key = ''Enter'' then handleSearch (localValue st) st else st)"

text \<open>
  The search bar's effect: when the search text it is given has changed, the text in
  the input follows it.
\<close>

definition searchBar_effect :: "dashboard_state \<Rightarrow> dashboard_state \<Rightarrow> dashboard_state" where
  "searchBar_effect before st =
     (if searchQuery st = searchQuery before then st else st\<lparr>localValue := searchQuery st\<rparr>)"

text \<open>
  The dashboard's fetch effect has the search text, the facet selections and the page
  as its dependencies: it runs again, with the state as it is then, when one of them has
  changed.
\<close>

definition fetch_runs_again :: "dashboard_state \<Rightarrow> dashboard_state \<Rightarrow> bool" where
  "fetch_runs_again before st =
     (\<not> (searchQuery st = searchQuery before \<and> filters st = filters before
          \<and> page (pagination st) = page (pagination before)))"

text \<open>
  The events the rendered children can raise, as the components wire them: typing into
  the search input, submitting the search form, a key pressed in the input, the clear
  button; the sidebar's checkbox and clear-all button, which reach
  \<open>handleFiltersChange\<close> through \<open>onFiltersChange\<close>; the pagination buttons, which reach
  \<open>handlePageChange\<close>. A step is the handler followed by the search bar's effect.
\<close>

datatype dashboard_event =
    SearchInput string
  | SearchSubmit
  | SearchKeyDown string
  | SearchClear
  | FilterToggle filter_key string bool
  | FilterClearAll
  | PageRequest int

fun dashboard_handler :: "dashboard_event \<Rightarrow> dashboard_state \<Rightarrow> dashboard_state" where
  "dashboard_handler (SearchInput newValue) st = searchBar_handleInputChange newValue st"
| "dashboard_handler SearchSubmit st = searchBar_handleSubmit st"
| "dashboard_handler (SearchKeyDown key) st = searchBar_handleKeyDown key st"
| "dashboard_handler SearchClear st = searchBar_handleClear st"
| "dashboard_handler (FilterToggle filterType val checked) st =
     handleFiltersChange (handleFilterChange (filters st) filterType val checked) st"
| "dashboard_handler FilterClearAll st = handleFiltersChange clearAllFilters st"
| "dashboard_handler (PageRequest pg) st = handlePageChange pg st"

definition dashboard_step :: "dashboard_event \<Rightarrow> dashboard_state \<Rightarrow> dashboard_state" where
  "dashboard_step e st = searchBar_effect st (dashboard_handler e st)"

text \<open>A dashboard on page 3 of the result set, with no search text and no facet chosen.\<close>

definition page3_state :: dashboard_state where
  "page3_state =
     \<lparr> searchQuery = [],
       filters = \<lparr> categories = [], formats = [], languages = [], licenses = [] \<rparr>,
       pagination = \<lparr> page = 3, per_page = 20, total_items = 156, pages = 8,
                      has_next = True, has_prev = True \<rparr>,
       localValue = [] \<rparr>"

section \<open>Session reconciler (the Auth0IntegratedProvider component)\<close>

subsection \<open>Data\<close>

text \<open>
  The local User. The field \<open>id\<close> of the source is called \<open>user_id\<close> here, since \<open>id\<close>
  is a constant of HOL.
\<close>

record User =
  user_id :: string
  email :: string
  firstName :: string
  lastName :: string
  provider :: string
  profileCompleted :: bool
  auth0Id :: string

text \<open>
  What the identity provider's hook reports: the claims of the provider's user (the
  optional ones may be absent), whether it is authenticated and whether it is loading.
\<close>

record Auth0User =
  sub :: string
  auth0_email :: "string option"
  given_name :: "string option"
  family_name :: "string option"

record Auth0 =
  auth0User :: "Auth0User option"
  auth0IsAuthenticated :: bool
  auth0IsLoading :: bool

text \<open>
  The browser's local storage maps keys to strings. A stored string is either the JSON
  text of a User (what \<open>JSON.stringify\<close> wrote, and what \<open>JSON.parse\<close> reads back), or any
  other text. The component is the only writer of its User key, so other text under that
  key is taken not to be JSON: parsing it raises. Reading and removing a key do not
  raise. Writing a key (\<open>setItem\<close>) can raise, when the storage is full or switched off:
  the operations that write take a parameter that says, for each key, whether the write
  raises.
\<close>

datatype stored = UserJson User | Text string

type_synonym storage = "string \<rightharpoonup> stored"

text \<open>
  The provider component's state: its three state variables, the local storage, and the
  calls it has issued to the router (\<open>router.replace\<close>) and to the provider's logout
  (the \<open>returnTo\<close> address of each).
\<close>

record auth_state =
  user :: "User option"
  isLoading :: bool
  requiresProfileCompletion :: bool
  localStorage :: storage
  router_replace :: "string list"
  auth0Logout :: "string list"

text \<open>The state at mount, over a given local storage.\<close>

definition initial_state :: "storage \<Rightarrow> auth_state" where
  "initial_state ls =
     \<lparr> user = None, isLoading = True, requiresProfileCompletion = False,
       localStorage = ls, router_replace = [], auth0Logout = [] \<rparr>"

subsection \<open>JavaScript idioms\<close>

text \<open>
  \<open>x || d\<close> for an optional string \<open>x\<close>: absent and empty strings are falsy.
  \<open>s.includes(t)\<close>: \<open>t\<close> occurs in \<open>s\<close> as a contiguous substring.
\<close>

definition truthy :: "string option \<Rightarrow> string option" where
  "truthy x = (case x of None \<Rightarrow> None | Some s \<Rightarrow> if s = [] then None else Some s)"

definition or_else :: "string option \<Rightarrow> string \<Rightarrow> string" where
  "or_else x d = (case truthy x of None \<Rightarrow> d | Some s \<Rightarrow> s)"

fun includes_str :: "string \<Rightarrow> string \<Rightarrow> bool" where
  "includes_str [] t = (t = [])"
| "includes_str (c # cs) t = (prefix t (c # cs) \<or> includes_str cs t)"

subsection \<open>Loading and persisting the User\<close>

text \<open>
  The mount-time effect. An absent or empty stored value is skipped; a stored value that
  does not parse raises inside the \<open>try\<close>, is logged, and leaves the state as it was.
\<close>

definition loadFromStorage :: "auth_state \<Rightarrow> auth_state" where
  "loadFromStorage st =
     (let storedUser = localStorage st ''itqan_user'';
          profileCompletedFlag = localStorage st ''itqan_profile_completed''
      in case storedUser of
           None \<Rightarrow> st
         | Some (Text s) \<Rightarrow> st
         | Some (UserJson parsedUser) \<Rightarrow>
             st\<lparr> user := Some parsedUser,
                 requiresProfileCompletion :=
                   (profileCompletedFlag \<noteq> Some (Text ''1'') \<and> \<not> profileCompleted parsedUser) \<rparr>)"

text \<open>
  \<open>persistUserState\<close> with its write accepted. When the write raises, \<open>setUser\<close> has been
  called and the storage is as before; the callers below say what happens then.
\<close>

definition persistUserState :: "User option \<Rightarrow> auth_state \<Rightarrow> auth_state" where
  "persistUserState userData st =
     (case userData of
        Some u \<Rightarrow>
          st\<lparr> user := Some u,
              localStorage := (localStorage st)(''itqan_user'' \<mapsto> UserJson u) \<rparr>
      | None \<Rightarrow>
          st\<lparr> user := None,
              localStorage :=
                (localStorage st)(''itqan_user'' := None, ''itqan_profile_completed'' := None) \<rparr>)"

subsection \<open>The sync effect\<close>

text \<open>
  How the lookup of the email at the provider's \<open>/userinfo\<close> endpoint ends: the token
  request rejects, the fetch rejects, the response is not ok, reading the body rejects,
  or the response is ok with the body's \<open>email\<close> member (possibly absent).
\<close>

datatype userinfo_outcome =
    UserinfoTokenRejected
  | UserinfoFetchRejected
  | UserinfoNotOk
  | UserinfoBodyRejected
  | UserinfoOk "string option"

definition resolveEmail :: "Auth0User \<Rightarrow> userinfo_outcome \<Rightarrow> string option" where
  "resolveEmail a ui =
     (case truthy (auth0_email a) of
        Some e \<Rightarrow> Some e
      | None \<Rightarrow> (case ui of UserinfoOk e \<Rightarrow> e | _ \<Rightarrow> None))"

text \<open>
  \<open>syncUser\<close> is asynchronous and nothing cancels a run. A run goes on without a pause
  unless the primary email claim is falsy; then it waits for the \<open>/userinfo\<close> lookup, and
  other handlers and later runs can write the state while it waits. When the lookup is
  over the run goes on from the state it finds then, with the provider user it captured
  at its start; it does not look at the provider again.

  \<open>syncUser_finish\<close> is the part after the lookup: build the User, read the persisted
  flag, persist, set \<open>requiresProfileCompletion\<close>; when the write raises, the outer
  \<open>catch\<close> clears the User and both keys and leaves \<open>requiresProfileCompletion\<close> as it
  was. In both cases \<open>finally\<close> ends the loading.
\<close>

definition syncUser_finish ::
    "(string \<Rightarrow> bool) \<Rightarrow> Auth0User \<Rightarrow> string option \<Rightarrow> auth_state \<Rightarrow> auth_state" where
  "syncUser_finish raises au resolvedEmail st =
     (let persisted = localStorage st ''itqan_profile_completed'';
          userData =
            \<lparr> user_id = sub au,
              email = or_else resolvedEmail [],
              firstName = or_else (given_name au) [],
              lastName = or_else (family_name au) [],
              provider = ''auth0'',
              profileCompleted = (persisted = Some (Text ''1'')),
              auth0Id = sub au \<rparr>;
          st' =
            (if raises ''itqan_user'' then
               persistUserState None (st\<lparr>user := Some userData\<rparr>)
             else
               (persistUserState (Some userData) st)
                 \<lparr>requiresProfileCompletion := \<not> profileCompleted userData\<rparr>)
      in st'\<lparr>isLoading := False\<rparr>)"

text \<open>
  The start of a run, from the provider's report: it ends at once (the provider is
  loading; or it is not signed in and the persisted state is cleared; or the email claim
  is there and the run finishes in the same step), or it is suspended at the lookup with
  the provider user it captured.
\<close>

datatype sync_run = Finished auth_state | Suspended Auth0User auth_state

definition syncUser_begin :: "(string \<Rightarrow> bool) \<Rightarrow> Auth0 \<Rightarrow> auth_state \<Rightarrow> sync_run" where
  "syncUser_begin raises a st =
     (if auth0IsLoading a then Finished st
      else
        (let st1 = st\<lparr>isLoading := True\<rparr>
         in case (auth0IsAuthenticated a, auth0User a) of
              (True, Some au) \<Rightarrow>
                (case truthy (auth0_email au) of
                   Some e \<Rightarrow> Finished (syncUser_finish raises au (Some e) st1)
                 | None \<Rightarrow> Suspended au st1)
            | _ \<Rightarrow>
                (let st' = persistUserState None st1;
                     st'' = st'\<lparr>requiresProfileCompletion := False\<rparr>
                 in Finished (st''\<lparr>isLoading := False\<rparr>))))"

text \<open>
  The rest of a suspended run, from the provider user it captured, the outcome of the
  lookup and the state at the time the lookup is over.
\<close>

definition syncUser_resume ::
    "(string \<Rightarrow> bool) \<Rightarrow> Auth0User \<Rightarrow> userinfo_outcome \<Rightarrow> auth_state \<Rightarrow> auth_state" where
  "syncUser_resume raises au ui st = syncUser_finish raises au (resolveEmail au ui) st"

text \<open>
  A run that nothing interrupts and whose write is accepted: the suspended run resumes
  from the state it left.
\<close>

definition syncUser :: "Auth0 \<Rightarrow> userinfo_outcome \<Rightarrow> auth_state \<Rightarrow> auth_state" where
  "syncUser a ui st =
     (case syncUser_begin (\<lambda>key. False) a st of
        Finished st' \<Rightarrow> st'
      | Suspended au st1 \<Rightarrow> syncUser_resume (\<lambda>key. False) au ui st1)"

subsection \<open>Route protection\<close>

text \<open>
  The route-protection effect: the address it hands to \<open>router.replace\<close>, if any, from
  the locale, the current pathname, the provider's report and the state.
\<close>

definition routeGuard :: "string \<Rightarrow> string \<Rightarrow> Auth0 \<Rightarrow> auth_state \<Rightarrow> string option" where
  "routeGuard locale pathname a st =
     (if isLoading st \<or> auth0IsLoading a then None
      else
        (let isAuthRoute = includes_str pathname ''/auth/'';
             isHomePage = (pathname = ''/'' @ locale \<or> pathname = ''/'' @ locale @ ''/'');
             isCallbackRoute = includes_str pathname ''/auth/callback''
         in if isCallbackRoute then None
            else
              (case (if auth0IsAuthenticated a \<and> user st \<noteq> None then
                       (if requiresProfileCompletion st
                           \<and> \<not> includes_str pathname ''/auth/complete-profile''
                        then Some (''/'' @ locale @ ''/auth/complete-profile'')
                        else if \<not> requiresProfileCompletion st \<and> isAuthRoute
                                \<and> \<not> isCallbackRoute
                        then Some (''/'' @ locale @ ''/dashboard'')
                        else None)
                     else None) of
                 Some target \<Rightarrow> Some target
               | None \<Rightarrow>
                   if \<not> auth0IsAuthenticated a \<and> \<not> auth0IsLoading a
                      \<and> \<not> isAuthRoute \<and> \<not> isHomePage
                   then Some (''/'' @ locale @ ''/auth/login'')
                   else None)))"

subsection \<open>Imperative operations\<close>

definition logout :: "string \<Rightarrow> string \<Rightarrow> auth_state \<Rightarrow> auth_state" where
  "logout app_url locale st =
     st\<lparr> auth0Logout := auth0Logout st @ [app_url @ ''/'' @ locale],
         user := None,
         requiresProfileCompletion := False \<rparr>"

definition updateUser :: "User \<Rightarrow> auth_state \<Rightarrow> auth_state" where
  "updateUser userData st =
     st\<lparr> user := Some userData,
         requiresProfileCompletion := \<not> profileCompleted userData \<rparr>"

text \<open>
  The backend's user record in the success response, and how the submission of the
  profile ends: the token request rejects, the fetch rejects, the response is ok with a
  user record, the response is ok and its body cannot be read as a record, or the
  response is not ok, with the \<open>error\<close> member of its payload if it has one.
\<close>

record BackendUser =
  backend_id :: string
  backend_email :: string
  first_name :: string
  last_name :: string

datatype submit_outcome =
    SubmitTokenRejected
  | SubmitFetchRejected
  | SubmitOk BackendUser
  | SubmitOkBodyRejected
  | SubmitNotOk "string option"

text \<open>What \<open>completeProfile\<close> throws to its caller.\<close>

datatype thrown =
    TokenRejection
  | FetchRejection
  | BodyRejection
  | StorageRaised
  | Error string

text \<open>
  \<open>completeProfile\<close>: the result for the caller (\<open>Inl\<close> what is thrown) and the state.
  The function is asynchronous; it writes nothing before its awaited calls are over, so
  the state it is given is the state at that time, and the provider's report is the one
  it captured when it was called. An ok response whose body cannot be read as a record
  (reading rejects, or there is no record to take the fields from) throws before
  anything is written. When the write of the User raises, \<open>setUser\<close> has been called and
  nothing else; when the write of the flag raises, the User is persisted and
  \<open>requiresProfileCompletion\<close> is false, and the router is not called. The request body,
  built from the form's data, has no part in the state and is not modelled; an absent
  provider user leaves \<open>auth0Id\<close> empty.
\<close>

definition completeProfile ::
    "(string \<Rightarrow> bool) \<Rightarrow> string \<Rightarrow> Auth0 \<Rightarrow> submit_outcome \<Rightarrow> auth_state
       \<Rightarrow> (thrown + unit) \<times> auth_state" where
  "completeProfile raises locale a outcome st =
     (case outcome of
        SubmitTokenRejected \<Rightarrow> (Inl TokenRejection, st)
      | SubmitFetchRejected \<Rightarrow> (Inl FetchRejection, st)
      | SubmitOk backendUser \<Rightarrow>
          (let userData =
                 \<lparr> user_id = backend_id backendUser,
                   email = backend_email backendUser,
                   firstName = first_name backendUser,
                   lastName = last_name backendUser,
                   provider = ''auth0'',
                   profileCompleted = True,
                   auth0Id = (case auth0User a of Some au \<Rightarrow> sub au | None \<Rightarrow> []) \<rparr>
           in if raises ''itqan_user'' then (Inl StorageRaised, st\<lparr>user := Some userData\<rparr>)
              else
                (let st1 = persistUserState (Some userData) st;
                     st2 = st1\<lparr>requiresProfileCompletion := False\<rparr>
                 in if raises ''itqan_profile_completed'' then (Inl StorageRaised, st2)
                    else
                      (let st3 = st2\<lparr>localStorage :=
                                   (localStorage st2)(''itqan_profile_completed'' \<mapsto> Text ''1'')\<rparr>
                       in (Inr (),
                           st3\<lparr>router_replace :=
                                 router_replace st3 @ [''/'' @ locale @ ''/dashboard'']\<rparr>))))
      | SubmitOkBodyRejected \<Rightarrow> (Inl BodyRejection, st)
      | SubmitNotOk err \<Rightarrow> (Inl (Error (or_else err ''Failed to complete profile'')), st))"

subsection \<open>The condition of the data model\<close>

text \<open>
  The condition the data model gives for \<open>requiresProfileCompletion\<close>, in its words: a
  User exists, the provider reports it authenticated, and its \<open>profileCompleted\<close> flag,
  local or persisted, is false.
\<close>

definition completion_flag :: "auth_state \<Rightarrow> User \<Rightarrow> bool" where
  "completion_flag st u =
     (profileCompleted u \<or> localStorage st ''itqan_profile_completed'' = Some (Text ''1''))"

definition completion_required :: "Auth0 \<Rightarrow> auth_state \<Rightarrow> bool" where
  "completion_required a st =
     (case user st of
        None \<Rightarrow> False
      | Some u \<Rightarrow> auth0IsAuthenticated a \<and> \<not> completion_flag st u)"

subsection \<open>Sample values\<close>

definition sample_user :: User where
  "sample_user =
     \<lparr> user_id = ''auth0|42'', email = ''amina@example.org'', firstName = ''Amina'',
       lastName = ''Saleh'', provider = ''auth0'', profileCompleted = False,
       auth0Id = ''auth0|42'' \<rparr>"

definition anonymous :: Auth0 where
  "anonymous = \<lparr> auth0User = None, auth0IsAuthenticated = False, auth0IsLoading = False \<rparr>"

definition provider_user :: Auth0User where
  "provider_user =
     \<lparr> sub = ''auth0|42'', auth0_email = None,
       given_name = Some ''Amina'', family_name = None \<rparr>"

definition signed_in :: Auth0 where
  "signed_in =
     \<lparr> auth0User = Some provider_user,
       auth0IsAuthenticated = True, auth0IsLoading = False \<rparr>"

definition sample_backend_user :: BackendUser where
  "sample_backend_user =
     \<lparr> backend_id = ''7'', backend_email = ''amina@example.org'',
       first_name = ''Amina'', last_name = ''Saleh'' \<rparr>"

text \<open>A settled session: no User, nothing stored, nothing loading.\<close>

definition settled_empty :: auth_state where
  "settled_empty = (initial_state Map.empty)\<lparr>isLoading := False\<rparr>"

text \<open>A settled session of a User who completed the profile, with both keys stored.\<close>

definition completed_session :: auth_state where
  "completed_session =
     \<lparr> user = Some (sample_user\<lparr>profileCompleted := True\<rparr>),
       isLoading = False,
       requiresProfileCompletion = False,
       localStorage =
         [''itqan_user'' \<mapsto> UserJson (sample_user\<lparr>profileCompleted := True\<rparr>),
          ''itqan_profile_completed'' \<mapsto> Text ''1''],
       router_replace = [],
       auth0Logout = [] \<rparr>"

section \<open>Login and signup forms (the LoginForm and SignupForm components)\<close>

subsection \<open>Data\<close>

text \<open>The fields of the two forms, and the read \<open>formData[field]\<close> by field name.\<close>

record LoginFormData =
  login_email :: string
  login_password :: string

record SignupFormData =
  signup_firstName :: string
  signup_lastName :: string
  signup_jobTitle :: string
  signup_phoneNumber :: string
  signup_email :: string
  signup_password :: string

definition login_field :: "LoginFormData \<Rightarrow> string \<Rightarrow> string option" where
  "login_field d f =
     (if f = ''email'' then Some (login_email d)
      else if f = ''password'' then Some (login_password d)
      else None)"

definition signup_field :: "SignupFormData \<Rightarrow> string \<Rightarrow> string option" where
  "signup_field d f =
     (if f = ''firstName'' then Some (signup_firstName d)
      else if f = ''lastName'' then Some (signup_lastName d)
      else if f = ''jobTitle'' then Some (signup_jobTitle d)
      else if f = ''phoneNumber'' then Some (signup_phoneNumber d)
      else if f = ''email'' then Some (signup_email d)
      else if f = ''password'' then Some (signup_password d)
      else None)"

text \<open>
  The result of a validator, as the submit handlers read it: \<open>isValid\<close> and a list of
  errors, each with the name of a field and a message.
\<close>

record ValidationError =
  field :: string
  message :: string

record ValidationResult =
  isValid :: bool
  errors :: "ValidationError list"

text \<open>
  The dictionary entries the handlers read (\<open>dict.auth.validation\<close>). Its type is not
  among the sources; the last field stands for the entries the validators read: the
  message shown for a required field that is empty, by field name.
\<close>

record Dictionary =
  loginFailed :: string
  signupFailed :: string
  networkError :: string
  requiredMessage :: "string \<Rightarrow> string"

text \<open>
  The answer of the backend operations \<open>loginUser\<close> and \<open>signupUser\<close>, and how the
  awaited call ends.
\<close>

record ResponseUser =
  response_id :: string
  response_email :: string
  response_firstName :: string
  response_lastName :: string

record AuthResponse =
  success :: bool
  response_user :: "ResponseUser option"
  token :: "string option"
  error :: "string option"

datatype 'a awaited = Rejected | Resolved 'a

text \<open>
  What a submit handler calls outside the form: the backend operations (the network
  calls), the session context (\<open>login\<close>, \<open>updateUser\<close>) and the browser's location.
\<close>

datatype form_call =
    LoginUser string string
  | SignupUser SignupFormData
  | ContextLogin ResponseUser string
  | ContextUpdateUser User
  | LocationAssign string

text \<open>
  The state of a form: its data, the error message by field name (\<open>errors\<close> in the
  source), the loading flag (\<open>isLoading\<close> in the source), the top-level error, and the
  calls it has made.
\<close>

record 'd form_state =
  formData :: 'd
  fieldErrors :: "string \<rightharpoonup> string"
  submitting :: bool
  submitError :: string
  calls :: "form_call list"

subsection \<open>Validators\<close>

text \<open>
  Modelled from the spec: the validators of \<open>@/lib/validations\<close> are not among the
  sources. The spec says of them that validation is field-level and produces a mapping
  from field name to error message, and that a required field that is empty yields a
  non-empty error for that field; it does not say which fields are required, so they are
  a parameter. \<open>validateRequired\<close> reports, in the order of the required fields, each one
  whose value is the empty string, with the dictionary's message for it, and is valid
  when it reports nothing.
\<close>

definition validateRequired ::
    "string list \<Rightarrow> (string \<Rightarrow> string option) \<Rightarrow> Dictionary \<Rightarrow> ValidationResult" where
  "validateRequired required read dict =
     (let errs = map (\<lambda>f. \<lparr> field = f, message = requiredMessage dict f \<rparr>)
                     (filter (\<lambda>f. read f = Some []) required)
      in \<lparr> isValid = (errs = []), errors = errs \<rparr>)"

text \<open>
  Modelled from the spec: \<open>validateLoginForm\<close> of \<open>@/lib/validations\<close>, not among the
  sources, as the validation of the login form's required fields.
\<close>

definition validateLoginForm ::
    "string list \<Rightarrow> LoginFormData \<Rightarrow> Dictionary \<Rightarrow> ValidationResult" where
  "validateLoginForm required d dict = validateRequired required (login_field d) dict"

text \<open>
  Modelled from the spec: \<open>validateSignupForm\<close> of \<open>@/lib/validations\<close>, not among the
  sources, as the validation of the signup form's required fields.
\<close>

definition validateSignupForm ::
    "string list \<Rightarrow> SignupFormData \<Rightarrow> Dictionary \<Rightarrow> ValidationResult" where
  "validateSignupForm required d dict = validateRequired required (signup_field d) dict"

subsection \<open>Submit handlers\<close>

text \<open>
  The loop \<open>validation.errors.forEach(error => fieldErrors[error.field] = error.message)\<close>
  over an empty object: a later error for a field overwrites an earlier one.
\<close>

definition collectFieldErrors :: "ValidationError list \<Rightarrow> (string \<rightharpoonup> string)" where
  "collectFieldErrors errs =
     fold (\<lambda>error fieldErrors. fieldErrors(field error \<mapsto> message error)) errs Map.empty"

text \<open>
  \<open>handleEmailLogin\<close> of the login form, from the required fields, the dictionary and
  the way the awaited \<open>loginUser\<close> call ends (consulted only when the call is made).
\<close>

definition handleEmailLogin ::
    "string list \<Rightarrow> Dictionary \<Rightarrow> AuthResponse awaited
       \<Rightarrow> LoginFormData form_state \<Rightarrow> LoginFormData form_state" where
  "handleEmailLogin required dict outcome st =
     (let st1 = st\<lparr>submitError := []\<rparr>;
          validation = validateLoginForm required (formData st1) dict
      in if \<not> isValid validation then
           st1\<lparr>fieldErrors := collectFieldErrors (errors validation)\<rparr>
         else
           (let st2 = st1\<lparr>submitting := True\<rparr>;
                st3 = st2\<lparr>calls := calls st2
                              @ [LoginUser (login_email (formData st2))
                                           (login_password (formData st2))]\<rparr>;
                st4 =
                  (case outcome of
                     Rejected \<Rightarrow> st3\<lparr>submitError := networkError dict\<rparr>
                   | Resolved response \<Rightarrow>
                       (case (success response, response_user response, truthy (token response)) of
                          (True, Some u, Some t) \<Rightarrow>
                            st3\<lparr>calls := calls st3 @ [ContextLogin u t]\<rparr>
                        | _ \<Rightarrow>
                            st3\<lparr>submitError := or_else (error response) (loginFailed dict)\<rparr>))
            in st4\<lparr>submitting := False\<rparr>))"

text \<open>
  \<open>handleSubmit\<close> of the signup form. On success the response's user becomes a User of
  the session context, with provider \<open>email\<close> and a completed profile, and the browser
  is sent to the dashboard.
\<close>

definition handleSubmit ::
    "string list \<Rightarrow> Dictionary \<Rightarrow> string \<Rightarrow> AuthResponse awaited
       \<Rightarrow> SignupFormData form_state \<Rightarrow> SignupFormData form_state" where
  "handleSubmit required dict locale outcome st =
     (let st1 = st\<lparr>submitError := []\<rparr>;
          validation = validateSignupForm required (formData st1) dict
      in if \<not> isValid validation then
           st1\<lparr>fieldErrors := collectFieldErrors (errors validation)\<rparr>
         else
           (let st2 = st1\<lparr>submitting := True\<rparr>;
                st3 = st2\<lparr>calls := calls st2 @ [SignupUser (formData st2)]\<rparr>;
                st4 =
                  (case outcome of
                     Rejected \<Rightarrow> st3\<lparr>submitError := networkError dict\<rparr>
                   | Resolved response \<Rightarrow>
                       (case (success response, response_user response, truthy (token response)) of
                          (True, Some u, Some t) \<Rightarrow>
                            (let auth0User =
                                   \<lparr> user_id = response_id u,
                                     email = response_email u,
                                     firstName = response_firstName u,
                                     lastName = response_lastName u,
                                     provider = ''email'',
                                     profileCompleted = True,
                                     auth0Id = response_id u \<rparr>
                             in st3\<lparr>calls := calls st3
                                   @ [ContextUpdateUser auth0User,
                                      LocationAssign (''/'' @ locale @ ''/dashboard'')]\<rparr>)
                        | _ \<Rightarrow>
                            st3\<lparr>submitError := or_else (error response) (signupFailed dict)\<rparr>))
            in st4\<lparr>submitting := False\<rparr>))"

text \<open>Sample values: an English dictionary and a login form with the password missing.\<close>

definition sample_dict :: Dictionary where
  "sample_dict =
     \<lparr> loginFailed = ''Login failed'', signupFailed = ''Signup failed'',
       networkError = ''Network error'',
       requiredMessage = (\<lambda>f. ''This field is required'') \<rparr>"

definition login_without_password :: "LoginFormData form_state" where
  "login_without_password =
     \<lparr> formData = \<lparr> login_email = ''amina@example.org'', login_password = [] \<rparr>,
       fieldErrors = Map.empty, submitting = False, submitError = [], calls = [] \<rparr>"

definition signup_without_name :: "SignupFormData form_state" where
  "signup_without_name =
     \<lparr> formData = \<lparr> signup_firstName = [], signup_lastName = ''Saleh'',
                    signup_jobTitle = ''Editor'', signup_phoneNumber = ''0100'',
                    signup_email = ''amina@example.org'', signup_password = ''secret'' \<rparr>,
       fieldErrors = Map.empty, submitting = False, submitError = [], calls = [] \<rparr>"

section \<open>Properties of the pagination\<close>

lemma push_range_upto: "push_range i hi acc = acc @ map PageNum [i..hi]"
proof (induction i hi acc rule: push_range.induct)
  case (1 i hi acc)
  show ?case
  proof (cases "i \<le> hi")
    case True
    then have "push_range i hi acc = push_range (i + 1) hi (acc @ [PageNum i])"
      by (subst push_range.simps) simp
    also have "\<dots> = (acc @ [PageNum i]) @ map PageNum [i + 1..hi]"
      using "1.IH" True by simp
    also have "\<dots> = acc @ map PageNum [i..hi]"
      using True by (simp add: upto_rec1 [of i hi])
    finally show ?thesis .
  next
    case False
    then show ?thesis by (subst push_range.simps) simp
  qed
qed

text \<open>
  Claim C6. For every pagination envelope the item range is
  \<open>startItem = (page - 1) * per_page + 1\<close> to \<open>endItem = min (page * per_page) total\<close>.
  With more than one page the component renders, and what it renders shows exactly that
  range, with the Previous button disabled exactly when \<open>has_prev\<close> is false and the Next
  button exactly when \<open>has_next\<close> is false; with at most one page it renders nothing.
\<close>

theorem pagination_range_and_controls:
  "startItem p = (page p - 1) * per_page p + 1 \<and>
   endItem p = min (page p * per_page p) (total_items p) \<and>
   (1 < pages p \<longrightarrow>
      (\<exists>v. Pagination p = Some v \<and>
           shown_from v = (page p - 1) * per_page p + 1 \<and>
           shown_to v = min (page p * per_page p) (total_items p) \<and>
           (prev_disabled v \<longleftrightarrow> \<not> has_prev p) \<and>
           (next_disabled v \<longleftrightarrow> \<not> has_next p))) \<and>
   (pages p \<le> 1 \<longrightarrow> Pagination p = None) \<and>
   (\<forall>v. Pagination p = Some v \<longrightarrow>
      shown_from v = (page p - 1) * per_page p + 1 \<and>
      shown_to v = min (page p * per_page p) (total_items p) \<and>
      (prev_disabled v \<longleftrightarrow> \<not> has_prev p) \<and>
      (next_disabled v \<longleftrightarrow> \<not> has_next p))"
  by (auto simp: startItem_def endItem_def Pagination_def split: if_splits)

text \<open>
  The theorem at page 3 of 8 (items 41 to 60 of 156, both buttons enabled) and at a
  single page (nothing rendered).
\<close>

theorem pagination_range_and_controls_witness:
  "(\<exists>v. Pagination (pagination page3_state) = Some v \<and>
        shown_from v = 41 \<and> shown_to v = 60 \<and> \<not> prev_disabled v \<and> \<not> next_disabled v) \<and>
   Pagination (pagination page3_state\<lparr>page := 1, pages := 1\<rparr>) = None"
proof -
  have many: "1 < pages (pagination page3_state)"
    by (simp add: page3_state_def)
  have one: "pages (pagination page3_state\<lparr>page := 1, pages := 1\<rparr>) \<le> 1"
    by simp
  from pagination_range_and_controls [of "pagination page3_state"] many
  obtain v where v: "Pagination (pagination page3_state) = Some v"
      "shown_from v = (page (pagination page3_state) - 1) * per_page (pagination page3_state) + 1"
      "shown_to v = min (page (pagination page3_state) * per_page (pagination page3_state))
                        (total_items (pagination page3_state))"
      "prev_disabled v \<longleftrightarrow> \<not> has_prev (pagination page3_state)"
      "next_disabled v \<longleftrightarrow> \<not> has_next (pagination page3_state)"
    by blast
  then have "shown_from v = 41 \<and> shown_to v = 60 \<and> \<not> prev_disabled v \<and> \<not> next_disabled v"
    by (simp add: page3_state_def)
  with v(1) have first: "\<exists>v. Pagination (pagination page3_state) = Some v \<and>
        shown_from v = 41 \<and> shown_to v = 60 \<and> \<not> prev_disabled v \<and> \<not> next_disabled v"
    by blast
  from pagination_range_and_controls [of "pagination page3_state\<lparr>page := 1, pages := 1\<rparr>"] one
  have "Pagination (pagination page3_state\<lparr>page := 1, pages := 1\<rparr>) = None"
    by blast
  with first show ?thesis by blast
qed

text \<open>
  Claim C10. For every pagination envelope with \<open>1 \<le> page \<le> pages\<close>: with at most seven
  pages \<open>getVisiblePages\<close> returns exactly the ascending list \<open>1, 2, ..., pages\<close>; with
  more than seven pages the list contains the current page, page 1 and the last page;
  and the component renders nothing when there is at most one page.
\<close>

theorem getVisiblePages_cases:
  assumes "1 \<le> page p" and "page p \<le> pages p"
  shows "(pages p \<le> 7 \<longrightarrow> getVisiblePages p = map PageNum [1..pages p]) \<and>
         (7 < pages p \<longrightarrow>
            PageNum (page p) \<in> set (getVisiblePages p) \<and>
            PageNum 1 \<in> set (getVisiblePages p) \<and>
            PageNum (pages p) \<in> set (getVisiblePages p)) \<and>
         (pages p \<le> 1 \<longrightarrow> Pagination p = None)"
proof (intro conjI impI)
  assume "pages p \<le> 7"
  then show "getVisiblePages p = map PageNum [1..pages p]"
    by (simp add: getVisiblePages_def Let_def push_range_upto)
next
  assume big: "7 < pages p"
  show "PageNum (page p) \<in> set (getVisiblePages p)"
  proof (cases "page p \<le> 4")
    case True
    with assms(1) have "page p = 1 \<or> page p \<in> set [2..5]" by auto
    with big True show ?thesis
      by (auto simp: getVisiblePages_def Let_def push_range_upto)
  next
    case False
    with big assms(2) show ?thesis
      by (auto simp: getVisiblePages_def Let_def push_range_upto)
  qed
  from big show "PageNum 1 \<in> set (getVisiblePages p)"
    by (auto simp: getVisiblePages_def Let_def push_range_upto)
  from big show "PageNum (pages p) \<in> set (getVisiblePages p)"
    by (auto simp: getVisiblePages_def Let_def push_range_upto)
next
  assume "pages p \<le> 1"
  then show "Pagination p = None"
    by (simp add: Pagination_def)
qed

text \<open>
  The theorem at three envelopes: a single page, the sixth of eight pages (near the end)
  and the sixth of twenty pages (in the middle).
\<close>

theorem getVisiblePages_cases_witness:
  "getVisiblePages (pagination page3_state\<lparr>page := 1, pages := 1\<rparr>) = [PageNum 1] \<and>
   Pagination (pagination page3_state\<lparr>page := 1, pages := 1\<rparr>) = None \<and>
   PageNum 6 \<in> set (getVisiblePages (pagination page3_state\<lparr>page := 6\<rparr>)) \<and>
   PageNum 1 \<in> set (getVisiblePages (pagination page3_state\<lparr>page := 6\<rparr>)) \<and>
   PageNum 8 \<in> set (getVisiblePages (pagination page3_state\<lparr>page := 6\<rparr>)) \<and>
   PageNum 6 \<in> set (getVisiblePages (pagination page3_state\<lparr>page := 6, pages := 20\<rparr>)) \<and>
   PageNum 20 \<in> set (getVisiblePages (pagination page3_state\<lparr>page := 6, pages := 20\<rparr>))"
  using getVisiblePages_cases [of "pagination page3_state\<lparr>page := 1, pages := 1\<rparr>"]
    getVisiblePages_cases [of "pagination page3_state\<lparr>page := 6\<rparr>"]
    getVisiblePages_cases [of "pagination page3_state\<lparr>page := 6, pages := 20\<rparr>"]
  by (simp add: page3_state_def upto_rec1)

section \<open>Properties of the facet filters\<close>

text \<open>
  Claim C9. For every filters state, facet \<open>t\<close> and value \<open>v\<close>: unchecking yields the
  previous \<open>t\<close>-array with every occurrence of \<open>v\<close> removed, checking yields the previous
  \<open>t\<close>-array with \<open>v\<close> appended at the end, in both cases the arrays of the other three
  facets are unchanged, and clearing all filters yields four empty arrays.
\<close>

theorem handleFilterChange_frame:
  "get_filter (handleFilterChange fs t v False) t = removeAll v (get_filter fs t) \<and>
   get_filter (handleFilterChange fs t v True) t = get_filter fs t @ [v] \<and>
   (\<forall>t' checked. t' \<noteq> t \<longrightarrow>
      get_filter (handleFilterChange fs t v checked) t' = get_filter fs t') \<and>
   (\<forall>t'. get_filter clearAllFilters t' = [])"
proof (intro conjI allI impI)
  show "get_filter (handleFilterChange fs t v False) t = removeAll v (get_filter fs t)"
    by (cases t) (simp_all add: handleFilterChange_def removeAll_filter_not_eq neq_commute)
  show "get_filter (handleFilterChange fs t v True) t = get_filter fs t @ [v]"
    by (cases t) (simp_all add: handleFilterChange_def)
  show "get_filter (handleFilterChange fs t v checked) t' = get_filter fs t'"
    if "t' \<noteq> t" for t' checked
    using that by (cases t; cases t') (simp_all add: handleFilterChange_def Let_def)
  show "get_filter clearAllFilters t' = []" for t'
    by (cases t') (simp_all add: clearAllFilters_def)
qed

theorem handleFilterChange_frame_witness:
  "get_filter (handleFilterChange
       \<lparr> categories = [''quran'', ''hadith'', ''quran''], formats = [''pdf''],
         languages = [], licenses = [] \<rparr> Categories ''quran'' False) Categories = [''hadith''] \<and>
   get_filter (handleFilterChange
       \<lparr> categories = [''quran'', ''hadith'', ''quran''], formats = [''pdf''],
         languages = [], licenses = [] \<rparr> Categories ''quran'' False) Formats = [''pdf'']"
proof -
  let ?fs = "\<lparr> categories = [''quran'', ''hadith'', ''quran''], formats = [''pdf''],
               languages = [], licenses = [] \<rparr>"
  note frame = handleFilterChange_frame [of ?fs Categories "''quran''"]
  from frame have
    "get_filter (handleFilterChange ?fs Categories ''quran'' False) Categories
       = removeAll ''quran'' (get_filter ?fs Categories)"
    by (rule conjunct1)
  moreover have "Formats \<noteq> Categories" by simp
  with frame have
    "get_filter (handleFilterChange ?fs Categories ''quran'' False) Formats
       = get_filter ?fs Formats"
    by blast
  ultimately show ?thesis by simp
qed

section \<open>Properties of the dashboard\<close>

text \<open>
  What the handlers of the dashboard do to the page: a submitted search (the form, the
  Enter key, the clear button) and any change of a facet selection reset it to 1, and
  page navigation leaves search text and facet selections as they were.
\<close>

lemma dashboard_page_reset:
  "searchQuery (dashboard_handler SearchSubmit st) = localValue st \<and>
   page (pagination (dashboard_handler SearchSubmit st)) = 1 \<and>
   page (pagination (dashboard_handler (SearchKeyDown ''Enter'') st)) = 1 \<and>
   searchQuery (dashboard_handler SearchClear st) = [] \<and>
   page (pagination (dashboard_handler SearchClear st)) = 1 \<and>
   filters (dashboard_handler (FilterToggle t v checked) st)
     = handleFilterChange (filters st) t v checked \<and>
   page (pagination (dashboard_handler (FilterToggle t v checked) st)) = 1 \<and>
   filters (dashboard_handler FilterClearAll st) = clearAllFilters \<and>
   page (pagination (dashboard_handler FilterClearAll st)) = 1 \<and>
   filters (handleFiltersChange newFilters st) = newFilters \<and>
   page (pagination (handleFiltersChange newFilters st)) = 1 \<and>
   page (pagination (dashboard_handler (PageRequest n) st)) = n \<and>
   searchQuery (dashboard_handler (PageRequest n) st) = searchQuery st \<and>
   filters (dashboard_handler (PageRequest n) st) = filters st"
  by (simp add: handleSearch_def setSearchQuery_def handleFiltersChange_def
      handlePageChange_def searchBar_handleSubmit_def searchBar_handleKeyDown_def
      searchBar_handleClear_def)

lemma searchBar_effect_page:
  "pagination (searchBar_effect before st) = pagination st \<and>
   searchQuery (searchBar_effect before st) = searchQuery st \<and>
   filters (searchBar_effect before st) = filters st"
  by (simp add: searchBar_effect_def)

text \<open>
  Claim C5 at a concrete state: a dashboard on page 3 into whose search input the text
  \<open>quran\<close> is typed. The search text changes to \<open>quran\<close>, the fetch effect runs again
  with it, and the page is still 3, not 1: the input's handler reaches the search text
  through the bare setter, and the reset of the page is in \<open>handleSearch\<close> only.
\<close>

theorem search_text_change_keeps_page:
  "searchQuery page3_state = [] \<and>
   searchQuery (dashboard_step (SearchInput ''quran'') page3_state) = ''quran'' \<and>
   fetch_runs_again page3_state (dashboard_step (SearchInput ''quran'') page3_state) \<and>
   page (pagination (dashboard_step (SearchInput ''quran'') page3_state)) = 3"
  by (simp add: dashboard_step_def searchBar_effect_def searchBar_handleInputChange_def
      setSearchQuery_def fetch_runs_again_def page3_state_def)

section \<open>Properties of the session reconciler\<close>

subsection \<open>Helper facts\<close>

lemma includes_str_sublist: "includes_str s t \<longleftrightarrow> sublist t s"
  by (induction s) (simp_all add: sublist_Cons_right)

lemma logout_localStorage: "localStorage (logout app_url locale st) = localStorage st"
  by (simp add: logout_def)

lemma persistUserState_None_clears:
  "localStorage (persistUserState None st) ''itqan_user'' = None \<and>
   localStorage (persistUserState None st) ''itqan_profile_completed'' = None"
  by (simp add: persistUserState_def)

lemma syncUser_finish_accepted:
  assumes "\<not> raises ''itqan_user''"
  shows "syncUser_finish raises au resolvedEmail st =
           st\<lparr> user := Some \<lparr> user_id = sub au,
                              email = or_else resolvedEmail [],
                              firstName = or_else (given_name au) [],
                              lastName = or_else (family_name au) [],
                              provider = ''auth0'',
                              profileCompleted =
                                (localStorage st ''itqan_profile_completed'' = Some (Text ''1'')),
                              auth0Id = sub au \<rparr>,
               localStorage := (localStorage st)(''itqan_user'' \<mapsto>
                         UserJson \<lparr> user_id = sub au,
                              email = or_else resolvedEmail [],
                              firstName = or_else (given_name au) [],
                              lastName = or_else (family_name au) [],
                              provider = ''auth0'',
                              profileCompleted =
                                (localStorage st ''itqan_profile_completed'' = Some (Text ''1'')),
                              auth0Id = sub au \<rparr>),
               requiresProfileCompletion :=
                 (localStorage st ''itqan_profile_completed'' \<noteq> Some (Text ''1'')),
               isLoading := False \<rparr>"
  using assms by (simp add: syncUser_finish_def persistUserState_def Let_def)

lemma syncUser_finish_raised:
  assumes "raises ''itqan_user''"
  shows "syncUser_finish raises au resolvedEmail st =
           st\<lparr> user := None,
               localStorage :=
                 (localStorage st)(''itqan_user'' := None, ''itqan_profile_completed'' := None),
               isLoading := False \<rparr>"
  using assms by (simp add: syncUser_finish_def persistUserState_def Let_def)

lemma syncUser_begin_cases:
  "syncUser_begin raises a st =
     (if auth0IsLoading a then Finished st
      else if auth0IsAuthenticated a \<and> auth0User a \<noteq> None then
        (case truthy (auth0_email (the (auth0User a))) of
           Some e \<Rightarrow>
             Finished (syncUser_finish raises (the (auth0User a)) (Some e) (st\<lparr>isLoading := True\<rparr>))
         | None \<Rightarrow> Suspended (the (auth0User a)) (st\<lparr>isLoading := True\<rparr>))
      else Finished (st\<lparr> user := None,
               localStorage :=
                 (localStorage st)(''itqan_user'' := None, ''itqan_profile_completed'' := None),
               requiresProfileCompletion := False,
               isLoading := False \<rparr>))"
  by (auto simp: syncUser_begin_def persistUserState_def Let_def
      split: bool.splits option.splits)

lemma resolveEmail_truthy: "truthy (auth0_email au) = Some e \<Longrightarrow> resolveEmail au ui = Some e"
  by (simp add: resolveEmail_def)

lemma syncUser_unauthenticated_clears:
  assumes "\<not> auth0IsLoading a" and "\<not> auth0IsAuthenticated a"
  shows "localStorage (syncUser a ui st) ''itqan_user'' = None \<and>
         localStorage (syncUser a ui st) ''itqan_profile_completed'' = None \<and>
         user (syncUser a ui st) = None"
  using assms by (simp add: syncUser_def syncUser_begin_cases)

lemma syncUser_loading: "auth0IsLoading a \<Longrightarrow> syncUser a ui st = st"
  by (simp add: syncUser_def syncUser_begin_cases)

lemma syncUser_authenticated:
  assumes "\<not> auth0IsLoading a" and "auth0IsAuthenticated a" and "auth0User a = Some au"
  shows "syncUser a ui st =
           st\<lparr> user := Some \<lparr> user_id = sub au,
                              email = or_else (resolveEmail au ui) [],
                              firstName = or_else (given_name au) [],
                              lastName = or_else (family_name au) [],
                              provider = ''auth0'',
                              profileCompleted =
                                (localStorage st ''itqan_profile_completed'' = Some (Text ''1'')),
                              auth0Id = sub au \<rparr>,
               localStorage := (localStorage st)(''itqan_user'' \<mapsto>
                         UserJson \<lparr> user_id = sub au,
                              email = or_else (resolveEmail au ui) [],
                              firstName = or_else (given_name au) [],
                              lastName = or_else (family_name au) [],
                              provider = ''auth0'',
                              profileCompleted =
                                (localStorage st ''itqan_profile_completed'' = Some (Text ''1'')),
                              auth0Id = sub au \<rparr>),
               requiresProfileCompletion :=
                 (localStorage st ''itqan_profile_completed'' \<noteq> Some (Text ''1'')),
               isLoading := False \<rparr>"
proof (cases "truthy (auth0_email au)")
  case None
  with assms show ?thesis
    by (simp add: syncUser_def syncUser_begin_cases syncUser_resume_def
        syncUser_finish_accepted)
next
  case (Some e)
  with assms show ?thesis
    by (simp add: syncUser_def syncUser_begin_cases syncUser_finish_accepted
        resolveEmail_truthy)
qed

lemma syncUser_not_signed_in:
  assumes "\<not> auth0IsLoading a" and "\<not> auth0IsAuthenticated a \<or> auth0User a = None"
  shows "syncUser a ui st =
           st\<lparr> user := None,
               localStorage :=
                 (localStorage st)(''itqan_user'' := None, ''itqan_profile_completed'' := None),
               requiresProfileCompletion := False,
               isLoading := False \<rparr>"
  using assms by (auto simp: syncUser_def syncUser_begin_cases)

lemma syncUser_sample:
  "syncUser_begin raises signed_in settled_empty
     = Suspended provider_user (settled_empty\<lparr>isLoading := True\<rparr>)"
  "\<not> isLoading (syncUser signed_in UserinfoNotOk settled_empty)"
  "user (syncUser signed_in UserinfoNotOk settled_empty) \<noteq> None"
  "requiresProfileCompletion (syncUser signed_in UserinfoNotOk settled_empty)"
  "localStorage (syncUser signed_in UserinfoNotOk settled_empty) ''itqan_profile_completed''
     = None"
  by (simp_all add: syncUser_authenticated syncUser_begin_cases signed_in_def provider_user_def
      truthy_def settled_empty_def initial_state_def)

text \<open>
  A stale run. The provider reports a signed-in user without an email claim and a run
  is suspended at the lookup; the provider then reports no authentication and a second
  run clears the state; the first run resumes and writes its User. The state then holds
  a User with \<open>requiresProfileCompletion\<close> set while the provider reports no
  authentication.
\<close>

lemma stale_sync_run:
  "syncUser_begin (\<lambda>key. False) signed_in settled_empty
     = Suspended provider_user (settled_empty\<lparr>isLoading := True\<rparr>) \<and>
   user (syncUser anonymous UserinfoNotOk (settled_empty\<lparr>isLoading := True\<rparr>)) = None \<and>
   requiresProfileCompletion
     (syncUser_resume (\<lambda>key. False) provider_user UserinfoNotOk
        (syncUser anonymous UserinfoNotOk (settled_empty\<lparr>isLoading := True\<rparr>))) \<and>
   \<not> completion_required anonymous
     (syncUser_resume (\<lambda>key. False) provider_user UserinfoNotOk
        (syncUser anonymous UserinfoNotOk (settled_empty\<lparr>isLoading := True\<rparr>)))"
  by (simp add: syncUser_sample syncUser_not_signed_in syncUser_resume_def
      syncUser_finish_accepted anonymous_def completion_required_def)

lemma completeProfile_failure:
  assumes "\<forall>bu. outcome \<noteq> SubmitOk bu"
  shows "(\<exists>e. fst (completeProfile raises locale a outcome st) = Inl e) \<and>
         snd (completeProfile raises locale a outcome st) = st"
  using assms by (cases outcome) (simp_all add: completeProfile_def)

lemma completeProfile_returns:
  "fst (completeProfile raises locale a outcome st) = Inr () \<longleftrightarrow>
     (\<exists>bu. outcome = SubmitOk bu) \<and> \<not> raises ''itqan_user''
       \<and> \<not> raises ''itqan_profile_completed''"
  by (cases outcome) (simp_all add: completeProfile_def Let_def)

lemma completeProfile_accepted:
  assumes "\<not> raises ''itqan_user''" and "\<not> raises ''itqan_profile_completed''"
  shows "completeProfile raises locale a (SubmitOk bu) st =
           (Inr (),
            st\<lparr> user := Some \<lparr> user_id = backend_id bu, email = backend_email bu,
                               firstName = first_name bu, lastName = last_name bu,
                               provider = ''auth0'', profileCompleted = True,
                               auth0Id = (case auth0User a of Some au \<Rightarrow> sub au | None \<Rightarrow> []) \<rparr>,
                localStorage := (localStorage st)
                  (''itqan_user'' \<mapsto>
                     UserJson \<lparr> user_id = backend_id bu, email = backend_email bu,
                               firstName = first_name bu, lastName = last_name bu,
                               provider = ''auth0'', profileCompleted = True,
                               auth0Id = (case auth0User a of Some au \<Rightarrow> sub au | None \<Rightarrow> []) \<rparr>,
                   ''itqan_profile_completed'' \<mapsto> Text ''1''),
                requiresProfileCompletion := False,
                router_replace := router_replace st @ [''/'' @ locale @ ''/dashboard''] \<rparr>)"
  using assms by (simp add: completeProfile_def persistUserState_def Let_def)

subsection \<open>The completion condition\<close>

text \<open>
  Claim C1, as stated, fails. \<open>updateUser\<close> looks at the flag of the User it is given and
  at nothing else, and the mount-time load looks at the stored User and the stored flag:
  with a provider that reports no authentication, both set \<open>requiresProfileCompletion\<close>
  while the condition of the data model is false.
\<close>

theorem updateUser_ignores_provider:
  "requiresProfileCompletion (updateUser sample_user settled_empty) \<and>
   \<not> completion_required anonymous (updateUser sample_user settled_empty) \<and>
   requiresProfileCompletion
     (loadFromStorage (initial_state [''itqan_user'' \<mapsto> UserJson sample_user])) \<and>
   \<not> completion_required anonymous
     (loadFromStorage (initial_state [''itqan_user'' \<mapsto> UserJson sample_user]))"
  by (simp add: updateUser_def loadFromStorage_def initial_state_def settled_empty_def
      sample_user_def anonymous_def completion_required_def)

text \<open>
  Claim C1, amended. With local storage accepting the write: after a sync run that ends
  without waiting for the \<open>/userinfo\<close> lookup (started while the provider is not
  loading), after a sync run that ends after the lookup while the provider reports
  authenticated, and so after every sync run that nothing interrupts;
  and further after logout and after a \<open>completeProfile\<close> that returns normally:
  \<open>requiresProfileCompletion\<close> is true if and only if a User exists, the provider reports
  authenticated, and the User's \<open>profileCompleted\<close> flag (local or persisted) is false.
  After \<open>updateUser\<close> a User exists and \<open>requiresProfileCompletion\<close> is true if and only
  if the local flag of that User is false; after a mount-time load that finds a stored
  User, that User exists and \<open>requiresProfileCompletion\<close> is true if and only if its flag
  (local or persisted) is false; neither of the two consults the provider.
\<close>

theorem requiresProfileCompletion_after_operations:
  "(\<not> auth0IsLoading a \<and> \<not> raises ''itqan_user'' \<longrightarrow>
      (\<forall>st'. syncUser_begin raises a st = Finished st' \<longrightarrow>
         requiresProfileCompletion st' = completion_required a st')) \<and>
   (auth0IsAuthenticated a \<and> \<not> raises ''itqan_user'' \<longrightarrow>
      requiresProfileCompletion (syncUser_resume raises au ui st)
        = completion_required a (syncUser_resume raises au ui st)) \<and>
   (\<not> auth0IsLoading a \<longrightarrow>
      requiresProfileCompletion (syncUser a ui st) = completion_required a (syncUser a ui st)) \<and>
   requiresProfileCompletion (logout app_url locale st)
     = completion_required a (logout app_url locale st) \<and>
   (fst (completeProfile raises locale a' outcome st) = Inr () \<longrightarrow>
      requiresProfileCompletion (snd (completeProfile raises locale a' outcome st))
        = completion_required a (snd (completeProfile raises locale a' outcome st))) \<and>
   user (updateUser u st) = Some u \<and>
   requiresProfileCompletion (updateUser u st) = (\<not> profileCompleted u) \<and>
   (localStorage st ''itqan_user'' = Some (UserJson u) \<longrightarrow>
      user (loadFromStorage st) = Some u \<and>
      requiresProfileCompletion (loadFromStorage st)
        = (\<not> completion_flag (loadFromStorage st) u))"
proof -
  have started: "requiresProfileCompletion st' = completion_required a st'"
    if "\<not> auth0IsLoading a \<and> \<not> raises ''itqan_user''"
      and "syncUser_begin raises a st = Finished st'" for st'
  proof (cases "auth0IsAuthenticated a \<and> auth0User a \<noteq> None")
    case False
    with that show ?thesis
      by (auto simp: syncUser_begin_cases completion_required_def)
  next
    case True
    with that show ?thesis
      by (auto simp: syncUser_begin_cases syncUser_finish_accepted completion_required_def
          completion_flag_def split: option.splits)
  qed
  have resume: "requiresProfileCompletion (syncUser_resume raises au ui st)
        = completion_required a (syncUser_resume raises au ui st)"
    if "auth0IsAuthenticated a \<and> \<not> raises ''itqan_user''"
    using that
    by (simp add: syncUser_resume_def syncUser_finish_accepted completion_required_def
        completion_flag_def)
  have whole: "requiresProfileCompletion (syncUser a ui st)
          = completion_required a (syncUser a ui st)"
    if settled: "\<not> auth0IsLoading a"
  proof (cases "auth0IsAuthenticated a")
    case False
    with settled show ?thesis
      by (simp add: syncUser_not_signed_in completion_required_def)
  next
    case True
    show ?thesis
    proof (cases "auth0User a")
      case None
      with settled show ?thesis
        by (simp add: syncUser_not_signed_in completion_required_def)
    next
      case (Some au)
      with settled True show ?thesis
        by (simp add: syncUser_authenticated completion_required_def completion_flag_def)
    qed
  qed
  have out: "requiresProfileCompletion (logout app_url locale st)
          = completion_required a (logout app_url locale st)"
    by (simp add: logout_def completion_required_def)
  have complete: "requiresProfileCompletion (snd (completeProfile raises locale a' outcome st))
        = completion_required a (snd (completeProfile raises locale a' outcome st))"
    if "fst (completeProfile raises locale a' outcome st) = Inr ()"
  proof -
    from that obtain bu where "outcome = SubmitOk bu"
        and "\<not> raises ''itqan_user''" and "\<not> raises ''itqan_profile_completed''"
      by (auto simp: completeProfile_returns)
    then show ?thesis
      by (simp add: completeProfile_accepted completion_required_def completion_flag_def)
  qed
  have update: "user (updateUser u st) = Some u"
      "requiresProfileCompletion (updateUser u st) = (\<not> profileCompleted u)"
    by (simp_all add: updateUser_def)
  have mount: "user (loadFromStorage st) = Some u \<and>
      requiresProfileCompletion (loadFromStorage st)
        = (\<not> completion_flag (loadFromStorage st) u)"
    if "localStorage st ''itqan_user'' = Some (UserJson u)"
    using that by (auto simp: loadFromStorage_def completion_flag_def)
  from started resume whole out complete update mount show ?thesis
    by blast
qed

text \<open>
  The theorem at a provider that reports a signed-in user with nothing stored: a run
  that nothing interrupts, and a run that resumes after a logout while the provider
  still reports the user (completion is required after both); at a provider that is not
  signed in (the run ends at once); at a submission that succeeds; and at a mount over a
  storage that holds a User with the flag not set.
\<close>

theorem requiresProfileCompletion_after_operations_witness:
  "completion_required signed_in (syncUser signed_in UserinfoNotOk settled_empty) \<and>
   completion_required signed_in
     (syncUser_resume (\<lambda>key. False) provider_user UserinfoNotOk
        (logout ''https://cms.example.org'' ''en'' completed_session)) = False \<and>
   (\<exists>st'. syncUser_begin (\<lambda>key. False) anonymous completed_session = Finished st' \<and>
          \<not> completion_required anonymous st') \<and>
   \<not> completion_required signed_in
       (snd (completeProfile (\<lambda>key. False) ''en'' signed_in (SubmitOk sample_backend_user)
              (syncUser signed_in UserinfoNotOk settled_empty))) \<and>
   user (loadFromStorage (initial_state [''itqan_user'' \<mapsto> UserJson sample_user]))
     = Some sample_user \<and>
   requiresProfileCompletion
     (loadFromStorage (initial_state [''itqan_user'' \<mapsto> UserJson sample_user]))"
proof -
  let ?st = "initial_state [''itqan_user'' \<mapsto> UserJson sample_user]"
  let ?never = "\<lambda>key::string. False"
  let ?synced = "syncUser signed_in UserinfoNotOk settled_empty"
  let ?out = "logout ''https://cms.example.org'' ''en'' completed_session"
  have report: "\<not> auth0IsLoading signed_in" "auth0IsAuthenticated signed_in"
      "\<not> auth0IsLoading anonymous"
    by (simp_all add: signed_in_def anonymous_def)
  have writes: "\<not> ?never ''itqan_user''" "\<not> ?never ''itqan_profile_completed''"
    by simp_all
  have stored: "localStorage ?st ''itqan_user'' = Some (UserJson sample_user)"
    by (simp add: initial_state_def)
  have flag: "\<not> completion_flag (loadFromStorage ?st) sample_user"
    by (simp add: completion_flag_def loadFromStorage_def initial_state_def sample_user_def)
  have resumed: "\<not> requiresProfileCompletion (syncUser_resume ?never provider_user UserinfoNotOk ?out)"
    by (simp add: syncUser_resume_def syncUser_finish_accepted logout_def
        completed_session_def)
  have ended: "syncUser_begin ?never anonymous completed_session
      = Finished (completed_session\<lparr> user := None,
               localStorage := (localStorage completed_session)
                 (''itqan_user'' := None, ''itqan_profile_completed'' := None),
               requiresProfileCompletion := False,
               isLoading := False \<rparr>)"
    by (simp add: syncUser_begin_cases anonymous_def)
  have returned: "fst (completeProfile ?never ''en'' signed_in (SubmitOk sample_backend_user)
      ?synced) = Inr ()"
    by (simp add: completeProfile_returns)
  have flipped: "\<not> requiresProfileCompletion
      (snd (completeProfile ?never ''en'' signed_in (SubmitOk sample_backend_user) ?synced))"
    by (simp add: completeProfile_accepted)
  note at_sync = requiresProfileCompletion_after_operations
      [of signed_in ?never settled_empty provider_user UserinfoNotOk]
  note at_resume = requiresProfileCompletion_after_operations
      [of signed_in ?never ?out provider_user UserinfoNotOk]
  note at_begin = requiresProfileCompletion_after_operations
      [of anonymous ?never completed_session]
  note at_complete = requiresProfileCompletion_after_operations
      [of signed_in ?never ?synced _ _ _ "''en''" signed_in "SubmitOk sample_backend_user"]
  note at_mount = requiresProfileCompletion_after_operations
      [of _ _ ?st _ _ _ _ _ _ sample_user]
  from at_sync report syncUser_sample(4)
  have one: "completion_required signed_in ?synced"
    by blast
  from at_resume report writes resumed
  have two: "completion_required signed_in
      (syncUser_resume ?never provider_user UserinfoNotOk ?out) = False"
    by blast
  let ?cleared = "completed_session\<lparr> user := None,
               localStorage := (localStorage completed_session)
                 (''itqan_user'' := None, ''itqan_profile_completed'' := None),
               requiresProfileCompletion := False,
               isLoading := False \<rparr>"
  from at_begin report writes ended
  have "requiresProfileCompletion ?cleared = completion_required anonymous ?cleared"
    by blast
  then have "\<not> completion_required anonymous ?cleared"
    by simp
  with ended
  have three: "\<exists>st'. syncUser_begin ?never anonymous completed_session = Finished st' \<and>
          \<not> completion_required anonymous st'"
    by blast
  from at_complete returned flipped
  have four: "\<not> completion_required signed_in
       (snd (completeProfile ?never ''en'' signed_in (SubmitOk sample_backend_user) ?synced))"
    by blast
  from at_mount stored flag
  have five: "user (loadFromStorage ?st) = Some sample_user \<and>
      requiresProfileCompletion (loadFromStorage ?st)"
    by blast
  from one two three four five show ?thesis
    by blast
qed

subsection \<open>Logout\<close>

text \<open>
  Claim C2 at a concrete state: a settled session with both keys stored. After \<open>logout\<close>
  the User in the state is gone, and both keys still hold what they held; the keys are
  removed by \<open>persistUserState\<close> only, which \<open>logout\<close> does not call.
\<close>

theorem logout_keeps_persisted_state:
  "user (logout ''https://cms.example.org'' ''en'' completed_session) = None \<and>
   localStorage (logout ''https://cms.example.org'' ''en'' completed_session) ''itqan_user''
     = Some (UserJson (sample_user\<lparr>profileCompleted := True\<rparr>)) \<and>
   localStorage (logout ''https://cms.example.org'' ''en'' completed_session)
       ''itqan_profile_completed''
     = Some (Text ''1'')"
  by (simp add: logout_def completed_session_def)

subsection \<open>Route protection\<close>

text \<open>
  Claim C3, as stated, fails. In a settled state without a User, on the login page,
  \<open>requiresProfileCompletion\<close> does not hold and the location is an auth page, yet there
  is no redirect to the dashboard. And when \<open>requiresProfileCompletion\<close> is set while the
  provider reports no authentication, the redirect from the dashboard goes to the login
  page, not to the completion page.
\<close>

theorem login_page_not_redirected:
  "\<not> isLoading settled_empty \<and> \<not> auth0IsLoading anonymous \<and>
   \<not> requiresProfileCompletion settled_empty \<and>
   includes_str ''/en/auth/login'' ''/auth/'' \<and>
   routeGuard ''en'' ''/en/auth/login'' anonymous settled_empty = None \<and>
   requiresProfileCompletion (updateUser sample_user settled_empty) \<and>
   \<not> includes_str ''/en/dashboard'' ''/auth/complete-profile'' \<and>
   routeGuard ''en'' ''/en/dashboard'' anonymous (updateUser sample_user settled_empty)
     = Some ''/en/auth/login''"
  by (simp add: routeGuard_def settled_empty_def initial_state_def anonymous_def
      updateUser_def sample_user_def)

text \<open>
  Claim C3, amended. After state settles (neither internal nor provider loading):
  callback locations get no redirect; elsewhere, whenever the provider reports
  authenticated, a User exists, \<open>requiresProfileCompletion\<close> holds and the location is not
  the completion page, the redirect goes to the completion page; and whenever the
  provider reports authenticated, a User exists, \<open>requiresProfileCompletion\<close> does not
  hold and the location is an auth page, the redirect goes to the dashboard.
\<close>

theorem routeGuard_settled:
  assumes "\<not> isLoading st" and "\<not> auth0IsLoading a"
  shows "(includes_str pathname ''/auth/callback'' \<longrightarrow>
            routeGuard locale pathname a st = None) \<and>
         (\<not> includes_str pathname ''/auth/callback'' \<and>
          auth0IsAuthenticated a \<and> user st \<noteq> None \<and> requiresProfileCompletion st \<and>
          \<not> includes_str pathname ''/auth/complete-profile'' \<longrightarrow>
            routeGuard locale pathname a st = Some (''/'' @ locale @ ''/auth/complete-profile'')) \<and>
         (\<not> includes_str pathname ''/auth/callback'' \<and>
          auth0IsAuthenticated a \<and> user st \<noteq> None \<and> \<not> requiresProfileCompletion st \<and>
          includes_str pathname ''/auth/'' \<longrightarrow>
            routeGuard locale pathname a st = Some (''/'' @ locale @ ''/dashboard''))"
  using assms by (simp add: routeGuard_def Let_def)

text \<open>
  The theorem at three settled situations: a callback location; a signed-in User with an
  incomplete profile on the dashboard; a signed-in User with a completed profile on the
  login page.
\<close>

theorem routeGuard_settled_witness:
  "routeGuard ''en'' ''/en/auth/callback'' signed_in
     (syncUser signed_in UserinfoNotOk settled_empty) = None \<and>
   routeGuard ''en'' ''/en/dashboard'' signed_in
     (syncUser signed_in UserinfoNotOk settled_empty) = Some ''/en/auth/complete-profile'' \<and>
   routeGuard ''en'' ''/en/auth/login'' signed_in completed_session = Some ''/en/dashboard''"
proof -
  let ?st = "syncUser signed_in UserinfoNotOk settled_empty"
  have st: "\<not> isLoading ?st" "user ?st \<noteq> None" "requiresProfileCompletion ?st"
    by (simp_all add: syncUser_sample)
  have cs: "\<not> isLoading completed_session" "user completed_session \<noteq> None"
      "\<not> requiresProfileCompletion completed_session"
    by (simp_all add: completed_session_def)
  have a: "\<not> auth0IsLoading signed_in" "auth0IsAuthenticated signed_in"
    by (simp_all add: signed_in_def)
  have paths: "includes_str ''/en/auth/callback'' ''/auth/callback''"
      "\<not> includes_str ''/en/dashboard'' ''/auth/callback''"
      "\<not> includes_str ''/en/dashboard'' ''/auth/complete-profile''"
      "\<not> includes_str ''/en/auth/login'' ''/auth/callback''"
      "includes_str ''/en/auth/login'' ''/auth/''"
    by simp_all
  from routeGuard_settled [OF st(1) a(1), of "''/en/auth/callback''" "''en''"]
       routeGuard_settled [OF st(1) a(1), of "''/en/dashboard''" "''en''"]
       routeGuard_settled [OF cs(1) a(1), of "''/en/auth/login''" "''en''"]
       st cs a paths
  show ?thesis by simp
qed

subsection \<open>Profile completion and failure handling\<close>

text \<open>
  Claim C4, as stated, fails. The backend responds ok and the body cannot be read as a
  user record: \<open>completeProfile\<close> throws before it writes, so the User persisted is the
  one with the incomplete profile, no completion flag is persisted and
  \<open>requiresProfileCompletion\<close> is still true. The same holds when the backend responds ok
  with a user record and the storage refuses the writes.
\<close>

theorem completeProfile_ok_unreadable_body:
  "requiresProfileCompletion (syncUser signed_in UserinfoNotOk settled_empty) \<and>
   fst (completeProfile (\<lambda>key. False) ''en'' signed_in SubmitOkBodyRejected
          (syncUser signed_in UserinfoNotOk settled_empty)) = Inl BodyRejection \<and>
   requiresProfileCompletion
     (snd (completeProfile (\<lambda>key. False) ''en'' signed_in SubmitOkBodyRejected
             (syncUser signed_in UserinfoNotOk settled_empty))) \<and>
   localStorage
     (snd (completeProfile (\<lambda>key. False) ''en'' signed_in SubmitOkBodyRejected
             (syncUser signed_in UserinfoNotOk settled_empty))) ''itqan_profile_completed''
     = None \<and>
   fst (completeProfile (\<lambda>key. True) ''en'' signed_in (SubmitOk sample_backend_user)
          (syncUser signed_in UserinfoNotOk settled_empty)) = Inl StorageRaised \<and>
   requiresProfileCompletion
     (snd (completeProfile (\<lambda>key. True) ''en'' signed_in (SubmitOk sample_backend_user)
             (syncUser signed_in UserinfoNotOk settled_empty))) \<and>
   localStorage
     (snd (completeProfile (\<lambda>key. True) ''en'' signed_in (SubmitOk sample_backend_user)
             (syncUser signed_in UserinfoNotOk settled_empty))) ''itqan_profile_completed''
     = None"
  by (simp add: completeProfile_def syncUser_sample)

text \<open>
  Claim C4, amended. When the submission succeeds, that is, the backend responds ok
  with a body that reads as a user record, and local storage accepts the two writes,
  \<open>completeProfile\<close> returns normally, the User in the state and the User persisted under
  \<open>itqan_user\<close> are the same User, built from the backend's record with
  \<open>profileCompleted\<close> true, the persisted completion flag is \<open>1\<close>, and
  \<open>requiresProfileCompletion\<close> is false.
\<close>

theorem completeProfile_success:
  assumes "\<not> raises ''itqan_user''" and "\<not> raises ''itqan_profile_completed''"
  shows
  "fst (completeProfile raises locale a (SubmitOk bu) st) = Inr () \<and>
   (\<exists>u. user (snd (completeProfile raises locale a (SubmitOk bu) st)) = Some u \<and>
        localStorage (snd (completeProfile raises locale a (SubmitOk bu) st)) ''itqan_user''
          = Some (UserJson u) \<and>
        profileCompleted u \<and>
        user_id u = backend_id bu \<and> email u = backend_email bu \<and>
        firstName u = first_name bu \<and> lastName u = last_name bu) \<and>
   localStorage (snd (completeProfile raises locale a (SubmitOk bu) st)) ''itqan_profile_completed''
     = Some (Text ''1'') \<and>
   \<not> requiresProfileCompletion (snd (completeProfile raises locale a (SubmitOk bu) st))"
  using assms by (simp add: completeProfile_accepted)

text \<open>
  The theorem at a signed-in User whose profile is incomplete: completion was required
  before the submission and is not after it.
\<close>

theorem completeProfile_success_witness:
  "requiresProfileCompletion (syncUser signed_in UserinfoNotOk settled_empty) \<and>
   fst (completeProfile (\<lambda>key. False) ''en'' signed_in (SubmitOk sample_backend_user)
          (syncUser signed_in UserinfoNotOk settled_empty)) = Inr () \<and>
   localStorage
     (snd (completeProfile (\<lambda>key. False) ''en'' signed_in (SubmitOk sample_backend_user)
             (syncUser signed_in UserinfoNotOk settled_empty))) ''itqan_profile_completed''
     = Some (Text ''1'') \<and>
   \<not> requiresProfileCompletion
       (snd (completeProfile (\<lambda>key. False) ''en'' signed_in (SubmitOk sample_backend_user)
               (syncUser signed_in UserinfoNotOk settled_empty)))"
proof -
  have writes: "\<not> (\<lambda>key::string. False) ''itqan_user''"
      "\<not> (\<lambda>key::string. False) ''itqan_profile_completed''"
    by simp_all
  from completeProfile_success
         [OF writes, of "''en''" signed_in sample_backend_user
            "syncUser signed_in UserinfoNotOk settled_empty"]
       syncUser_sample(4)
  show ?thesis by blast
qed

text \<open>
  Claim C8. In a sync run (provider not loading, authenticated, with a provider user)
  whose primary email claim is absent or empty and whose \<open>/userinfo\<close> lookup fails in any
  way, the User synced into the state is the User persisted under \<open>itqan_user\<close> and its
  email is empty. And whenever the profile submission fails (any outcome other than an
  ok response with a user record), \<open>completeProfile\<close> throws to its caller and leaves the
  whole state, hence the completion state, as it was. The first part is stated of the run
  that nothing interrupts and, last, of the run that resumes after the failed lookup from
  any state, its write accepted.
\<close>

theorem failure_handling:
  "(\<not> auth0IsLoading a \<and> auth0IsAuthenticated a \<and> auth0User a = Some au \<and>
    (auth0_email au = None \<or> auth0_email au = Some []) \<and> (\<forall>e. ui \<noteq> UserinfoOk e) \<longrightarrow>
      (\<exists>u. user (syncUser a ui st) = Some u \<and>
           localStorage (syncUser a ui st) ''itqan_user'' = Some (UserJson u) \<and>
           email u = [])) \<and>
   ((\<forall>bu. outcome \<noteq> SubmitOk bu) \<longrightarrow>
      (\<exists>e. fst (completeProfile raises locale a' outcome st') = Inl e) \<and>
      snd (completeProfile raises locale a' outcome st') = st') \<and>
   ((auth0_email au = None \<or> auth0_email au = Some []) \<and> (\<forall>e. ui \<noteq> UserinfoOk e) \<and>
    \<not> raises' ''itqan_user'' \<longrightarrow>
      (\<exists>u. user (syncUser_resume raises' au ui st2) = Some u \<and>
           localStorage (syncUser_resume raises' au ui st2) ''itqan_user'' = Some (UserJson u) \<and>
           email u = []))"
proof -
  have unresolved: "or_else (resolveEmail au ui) [] = []"
    if h: "(auth0_email au = None \<or> auth0_email au = Some []) \<and> (\<forall>e. ui \<noteq> UserinfoOk e)"
  proof -
    from h have "truthy (auth0_email au) = None"
      by (auto simp: truthy_def)
    moreover from h have "(case ui of UserinfoOk e \<Rightarrow> e | _ \<Rightarrow> None) = None"
      by (cases ui) simp_all
    ultimately show ?thesis
      by (simp add: resolveEmail_def or_else_def truthy_def)
  qed
  have sync: "\<exists>u. user (syncUser a ui st) = Some u \<and>
           localStorage (syncUser a ui st) ''itqan_user'' = Some (UserJson u) \<and>
           email u = []"
    if h: "\<not> auth0IsLoading a \<and> auth0IsAuthenticated a \<and> auth0User a = Some au \<and>
      (auth0_email au = None \<or> auth0_email au = Some []) \<and> (\<forall>e. ui \<noteq> UserinfoOk e)"
    using h unresolved by (simp add: syncUser_authenticated)
  have submit: "(\<exists>e. fst (completeProfile raises locale a' outcome st') = Inl e) \<and>
      snd (completeProfile raises locale a' outcome st') = st'"
    if "\<forall>bu. outcome \<noteq> SubmitOk bu"
    using that by (rule completeProfile_failure)
  have resumed: "\<exists>u. user (syncUser_resume raises' au ui st2) = Some u \<and>
           localStorage (syncUser_resume raises' au ui st2) ''itqan_user'' = Some (UserJson u) \<and>
           email u = []"
    if h: "(auth0_email au = None \<or> auth0_email au = Some []) \<and> (\<forall>e. ui \<noteq> UserinfoOk e) \<and>
      \<not> raises' ''itqan_user''"
    using h unresolved by (simp add: syncUser_resume_def syncUser_finish_accepted)
  from sync submit resumed show ?thesis by blast
qed

text \<open>
  The theorem at a signed-in provider without an email claim whose lookup gets a
  response that is not ok, at a submission the backend refuses, and at a run that
  resumes in another session's state after the fetch of the lookup was rejected.
\<close>

theorem failure_handling_witness:
  "(\<exists>u. user (syncUser signed_in UserinfoNotOk settled_empty) = Some u \<and>
        localStorage (syncUser signed_in UserinfoNotOk settled_empty) ''itqan_user''
          = Some (UserJson u) \<and>
        email u = []) \<and>
   fst (completeProfile (\<lambda>key. False) ''en'' signed_in (SubmitNotOk None) settled_empty)
     = Inl (Error ''Failed to complete profile'') \<and>
   snd (completeProfile (\<lambda>key. False) ''en'' signed_in (SubmitNotOk None) settled_empty) = settled_empty \<and>
   (\<exists>u. user (syncUser_resume (\<lambda>key. False) provider_user UserinfoFetchRejected
                completed_session) = Some u \<and>
        localStorage (syncUser_resume (\<lambda>key. False) provider_user UserinfoFetchRejected
                completed_session) ''itqan_user'' = Some (UserJson u) \<and>
        email u = [])"
proof -
  have pre: "\<not> auth0IsLoading signed_in \<and> auth0IsAuthenticated signed_in \<and>
      auth0User signed_in = Some provider_user \<and>
      (auth0_email provider_user = None \<or> auth0_email provider_user = Some []) \<and>
      (\<forall>e. UserinfoNotOk \<noteq> UserinfoOk e)"
    by (simp add: signed_in_def provider_user_def)
  have pre': "(auth0_email provider_user = None \<or> auth0_email provider_user = Some []) \<and>
      (\<forall>e. UserinfoFetchRejected \<noteq> UserinfoOk e) \<and> \<not> (\<lambda>key::string. False) ''itqan_user''"
    by (simp add: provider_user_def)
  have refused: "\<forall>bu. SubmitNotOk None \<noteq> SubmitOk bu"
    by simp
  have thrown: "fst (completeProfile (\<lambda>key. False) ''en'' signed_in (SubmitNotOk None) settled_empty)
      = Inl (Error ''Failed to complete profile'')"
    by (simp add: completeProfile_def or_else_def truthy_def)
  from failure_handling
         [of signed_in provider_user UserinfoNotOk settled_empty "SubmitNotOk None"
            "\<lambda>key. False" "''en''" signed_in settled_empty]
       pre refused thrown
  have first: "(\<exists>u. user (syncUser signed_in UserinfoNotOk settled_empty) = Some u \<and>
        localStorage (syncUser signed_in UserinfoNotOk settled_empty) ''itqan_user''
          = Some (UserJson u) \<and>
        email u = []) \<and>
   fst (completeProfile (\<lambda>key. False) ''en'' signed_in (SubmitNotOk None) settled_empty)
     = Inl (Error ''Failed to complete profile'') \<and>
   snd (completeProfile (\<lambda>key. False) ''en'' signed_in (SubmitNotOk None) settled_empty) = settled_empty"
    by blast
  from failure_handling
         [of _ provider_user UserinfoFetchRejected _ _ _ _ _ _ "\<lambda>key. False" completed_session]
       pre'
  have "\<exists>u. user (syncUser_resume (\<lambda>key. False) provider_user UserinfoFetchRejected
                completed_session) = Some u \<and>
        localStorage (syncUser_resume (\<lambda>key. False) provider_user UserinfoFetchRejected
                completed_session) ''itqan_user'' = Some (UserJson u) \<and>
        email u = []"
    by blast
  with first show ?thesis by blast
qed

section \<open>Properties of the forms\<close>

lemma collectFieldErrors_fold:
  "fold (\<lambda>error fieldErrors. fieldErrors(field error \<mapsto> message error))
        (map (\<lambda>f. \<lparr> field = f, message = msg f \<rparr>) fs) m f
     = (if f \<in> set fs then Some (msg f) else m f)"
  by (induction fs arbitrary: m) auto

lemma validateRequired_empty_field:
  assumes "f \<in> set required" and "read f = Some []"
  shows "\<not> isValid (validateRequired required read dict) \<and>
         collectFieldErrors (errors (validateRequired required read dict)) f
           = Some (requiredMessage dict f)"
proof -
  from assms have mem: "f \<in> set (filter (\<lambda>f. read f = Some []) required)"
    by simp
  from assms have "filter (\<lambda>f. read f = Some []) required \<noteq> []"
    by (auto simp: filter_empty_conv)
  then have "\<not> isValid (validateRequired required read dict)"
    by (simp add: validateRequired_def Let_def)
  moreover from mem
  have "collectFieldErrors (errors (validateRequired required read dict)) f
          = Some (requiredMessage dict f)"
    unfolding collectFieldErrors_def validateRequired_def Let_def
    by (simp only: ValidationResult.simps collectFieldErrors_fold if_True)
  ultimately show ?thesis by simp
qed

text \<open>
  Claim C7. For the login form and the signup form, every form input and every required
  field: if the field is empty when the form is submitted, the handler records an error
  message for that field, non-empty as the dictionary's message is, and returns without
  calling the backend operation: the calls made and the loading flag are as before.
\<close>

theorem empty_required_field_blocks_submit:
  assumes "f \<in> set required" and "requiredMessage dict f \<noteq> []"
  shows "(login_field (formData ls) f = Some [] \<longrightarrow>
            (\<exists>m. fieldErrors (handleEmailLogin required dict lo ls) f = Some m \<and> m \<noteq> []) \<and>
            calls (handleEmailLogin required dict lo ls) = calls ls \<and>
            submitting (handleEmailLogin required dict lo ls) = submitting ls) \<and>
         (signup_field (formData ss) f = Some [] \<longrightarrow>
            (\<exists>m. fieldErrors (handleSubmit required dict locale so ss) f = Some m \<and> m \<noteq> []) \<and>
            calls (handleSubmit required dict locale so ss) = calls ss \<and>
            submitting (handleSubmit required dict locale so ss) = submitting ss)"
proof -
  have login: "(\<exists>m. fieldErrors (handleEmailLogin required dict lo ls) f = Some m \<and> m \<noteq> []) \<and>
            calls (handleEmailLogin required dict lo ls) = calls ls \<and>
            submitting (handleEmailLogin required dict lo ls) = submitting ls"
    if empty: "login_field (formData ls) f = Some []"
  proof -
    from validateRequired_empty_field
           [of f required "login_field (formData ls)" dict, OF assms(1) empty]
    have "handleEmailLogin required dict lo ls =
            ls\<lparr> submitError := [],
                fieldErrors := collectFieldErrors
                  (errors (validateRequired required (login_field (formData ls)) dict)) \<rparr>"
      and "collectFieldErrors
             (errors (validateRequired required (login_field (formData ls)) dict)) f
           = Some (requiredMessage dict f)"
      by (simp_all add: handleEmailLogin_def validateLoginForm_def Let_def)
    with assms(2) show ?thesis by simp
  qed
  have signup: "(\<exists>m. fieldErrors (handleSubmit required dict locale so ss) f = Some m \<and> m \<noteq> []) \<and>
            calls (handleSubmit required dict locale so ss) = calls ss \<and>
            submitting (handleSubmit required dict locale so ss) = submitting ss"
    if empty: "signup_field (formData ss) f = Some []"
  proof -
    from validateRequired_empty_field
           [of f required "signup_field (formData ss)" dict, OF assms(1) empty]
    have "handleSubmit required dict locale so ss =
            ss\<lparr> submitError := [],
                fieldErrors := collectFieldErrors
                  (errors (validateRequired required (signup_field (formData ss)) dict)) \<rparr>"
      and "collectFieldErrors
             (errors (validateRequired required (signup_field (formData ss)) dict)) f
           = Some (requiredMessage dict f)"
      by (simp_all add: handleSubmit_def validateSignupForm_def Let_def)
    with assms(2) show ?thesis by simp
  qed
  from login signup show ?thesis by blast
qed

text \<open>
  The theorem at a login form without a password and a signup form without a first
  name, both fields required, whatever the backend would have answered.
\<close>

theorem empty_required_field_blocks_submit_witness:
  "fieldErrors (handleEmailLogin [''email'', ''password''] sample_dict Rejected
                  login_without_password) ''password''
     = Some ''This field is required'' \<and>
   calls (handleEmailLogin [''email'', ''password''] sample_dict Rejected
            login_without_password) = [] \<and>
   fieldErrors (handleSubmit [''firstName'', ''email''] sample_dict ''en'' Rejected
                  signup_without_name) ''firstName''
     = Some ''This field is required'' \<and>
   calls (handleSubmit [''firstName'', ''email''] sample_dict ''en'' Rejected
            signup_without_name) = []"
proof -
  have req: "''password'' \<in> set [''email'', ''password'']"
      "''firstName'' \<in> set [''firstName'', ''email'']"
    by simp_all
  have msg: "requiredMessage sample_dict ''password'' \<noteq> []"
      "requiredMessage sample_dict ''firstName'' \<noteq> []"
    by (simp_all add: sample_dict_def)
  have empty: "login_field (formData login_without_password) ''password'' = Some []"
      "signup_field (formData signup_without_name) ''firstName'' = Some []"
    by (simp_all add: login_field_def signup_field_def login_without_password_def
        signup_without_name_def)
  have shown: "fieldErrors (handleEmailLogin [''email'', ''password''] sample_dict Rejected
                  login_without_password) ''password'' = Some ''This field is required''"
      "fieldErrors (handleSubmit [''firstName'', ''email''] sample_dict ''en'' Rejected
                  signup_without_name) ''firstName'' = Some ''This field is required''"
    by (simp_all add: handleEmailLogin_def handleSubmit_def validateLoginForm_def
        validateSignupForm_def validateRequired_def collectFieldErrors_def Let_def
        login_field_def signup_field_def login_without_password_def
        signup_without_name_def sample_dict_def)
  have before: "calls login_without_password = []" "calls signup_without_name = []"
    by (simp_all add: login_without_password_def signup_without_name_def)
  from empty_required_field_blocks_submit
         [OF req(1) msg(1), of login_without_password Rejected signup_without_name "''en''" Rejected]
       empty_required_field_blocks_submit
         [OF req(2) msg(2), of login_without_password Rejected signup_without_name "''en''" Rejected]
       empty shown before
  show ?thesis by simp
qed

end
